theory Spec2Isabelle
  imports Main "HOL-Library.Sublist"
begin

section \<open>Python values and exceptions\<close>

text \<open>
  A Python \<open>str\<close> is modelled as the list of the bytes of its UTF-8 encoding. Every
  character the program tests for is ASCII, and no byte of a multi-byte UTF-8 sequence is
  an ASCII byte, so substitution, emptiness tests and joining agree with the same
  operations on code points.

  The backslash cannot be written inside a string literal; it is \<open>CHR 0x5C\<close>.
\<close>

abbreviation BSL :: char where
  "BSL \<equiv> CHR 0x5C"

abbreviation NL :: char where
  "NL \<equiv> CHR 0x0A"

text \<open>The exceptions the modelled code can raise or catch.\<close>

datatype py_error =
    KeyError string
  | EOFError
  | FileNotFoundError
  | CalledProcessError int string
  | OSError string

text \<open>
  The nested values \<open>sanitize_data\<close> walks: \<open>dict\<close>, \<open>list\<close>, \<open>str\<close>, and any other
  object (\<open>'a\<close>). A \<open>dict\<close> is its list of items in insertion order; a Python dict never
  holds a key twice, which \<open>wf_pyval\<close> states.
\<close>

datatype ('k, 'a) pyval =
    PDict "('k \<times> ('k, 'a) pyval) list"
  | PList "('k, 'a) pyval list"
  | PStr string
  | POther 'a

fun wf_pyval :: "('k, 'a) pyval \<Rightarrow> bool" where
  "wf_pyval (PDict d) = (distinct (map fst d) \<and> list_all (\<lambda>kv. wf_pyval (snd kv)) d)"
| "wf_pyval (PList xs) = list_all wf_pyval xs"
| "wf_pyval (PStr s) = True"
| "wf_pyval (POther x) = True"

text \<open>\<open>d[k] = v\<close>: an existing key keeps its position, a new key goes last.\<close>

fun dict_setitem :: "('k \<times> 'v) list \<Rightarrow> 'k \<Rightarrow> 'v \<Rightarrow> ('k \<times> 'v) list" where
  "dict_setitem [] k v = [(k, v)]"
| "dict_setitem ((k', v') # d) k v =
     (if k' = k then (k, v) # d else (k', v') # dict_setitem d k v)"

text \<open>\<open>d[k]\<close> on a dict with \<open>str\<close> keys: raises \<open>KeyError\<close> when the key is missing.\<close>

fun dict_getitem :: "(string \<times> 'v) list \<Rightarrow> string \<Rightarrow> py_error + 'v" where
  "dict_getitem [] k = Inl (KeyError k)"
| "dict_getitem ((k', v') # d) k = (if k' = k then Inr v' else dict_getitem d k)"

section \<open>The escaping function\<close>

text \<open>The table \<open>conv\<close> of \<open>escape_latex_special_chars\<close>, in the order it is written.\<close>

definition conv :: "(string \<times> string) list" where
  "conv =
    [([BSL], [BSL, BSL]),
     (''&'', BSL # ''&''),
     (''%'', BSL # ''%''),
     (''$'', BSL # ''$''),
     (''#'', BSL # ''#''),
     (''_'', BSL # ''_''),
     (''{'', BSL # ''{''),
     (''}'', BSL # ''}''),
     (''~'', BSL # ''textasciitilde{}''),
     (''^'', BSL # ''textasciicircum{}'')]"

text \<open>
  The compiled pattern is an alternation of the keys, each escaped by \<open>re.escape\<close> so that
  it matches itself literally, in the order
  \<open>sorted(conv.keys(), key=lambda item: - len(item))\<close>. Python's \<open>sorted\<close> is stable, and
  so is \<open>sort_key\<close>.
\<close>

definition regex_alternatives :: "string list" where
  "regex_alternatives = sort_key (\<lambda>item. - int (length item)) (map fst conv)"

text \<open>
  Matching an alternation of literals at the start of \<open>text\<close>: the first alternative that
  is a prefix of the text wins.
\<close>

fun regex_match_at :: "string list \<Rightarrow> string \<Rightarrow> string option" where
  "regex_match_at [] text = None"
| "regex_match_at (p # ps) text =
     (if prefix p text then Some p else regex_match_at ps text)"

text \<open>
  \<open>regex.sub(repl, text)\<close> for such a pattern and a function \<open>repl\<close> of the matched text:
  the text is scanned once from the left; where the pattern matches, the replacement is
  emitted and the scan goes on after the match; elsewhere one character is copied. The
  replacement is never scanned. An exception raised by \<open>repl\<close> ends the call. (After an
  empty match Python copies one character and goes on; no key of \<open>conv\<close> is empty.)
\<close>

fun regex_sub ::
  "string list \<Rightarrow> (string \<Rightarrow> py_error + string) \<Rightarrow> string \<Rightarrow> py_error + string" where
  "regex_sub alts repl [] =
     (case regex_match_at alts [] of
        None \<Rightarrow> Inr []
      | Some m \<Rightarrow> repl m)"
| "regex_sub alts repl (c # rest) =
     (case regex_match_at alts (c # rest) of
        None \<Rightarrow>
          (case regex_sub alts repl rest of
             Inl e \<Rightarrow> Inl e
           | Inr out \<Rightarrow> Inr (c # out))
      | Some m \<Rightarrow>
          (case repl m of
             Inl e \<Rightarrow> Inl e
           | Inr r \<Rightarrow>
               if m = [] then
                 (case regex_sub alts repl rest of
                    Inl e \<Rightarrow> Inl e
                  | Inr out \<Rightarrow> Inr (r @ c # out))
               else
                 (case regex_sub alts repl (drop (length m) (c # rest)) of
                    Inl e \<Rightarrow> Inl e
                  | Inr out \<Rightarrow> Inr (r @ out))))"

definition escape_latex_special_chars :: "('k, 'a) pyval \<Rightarrow> py_error + ('k, 'a) pyval" where
  "escape_latex_special_chars text =
     (case text of
        PStr s \<Rightarrow>
          (case regex_sub regex_alternatives (dict_getitem conv) s of
             Inl e \<Rightarrow> Inl e
           | Inr t \<Rightarrow> Inr (PStr t))
      | _ \<Rightarrow> Inr text)"

section \<open>The recursive sanitizer\<close>

text \<open>
  \<open>sanitize_items\<close> is the dict comprehension \<open>{k: sanitize_data(v) for k, v in
  data.items()}\<close>: the items are visited in order and each result is stored under its key
  in the dict being built. \<open>sanitize_elems\<close> is the list comprehension.
\<close>

fun sanitize_data :: "('k, 'a) pyval \<Rightarrow> py_error + ('k, 'a) pyval"
  and sanitize_items ::
    "('k \<times> ('k, 'a) pyval) list \<Rightarrow> ('k \<times> ('k, 'a) pyval) list
      \<Rightarrow> py_error + ('k \<times> ('k, 'a) pyval) list"
  and sanitize_elems :: "('k, 'a) pyval list \<Rightarrow> py_error + ('k, 'a) pyval list" where
  "sanitize_data (PDict d) =
     (case sanitize_items d [] of
        Inl e \<Rightarrow> Inl e
      | Inr d' \<Rightarrow> Inr (PDict d'))"
| "sanitize_data (PList xs) =
     (case sanitize_elems xs of
        Inl e \<Rightarrow> Inl e
      | Inr ys \<Rightarrow> Inr (PList ys))"
| "sanitize_data (PStr s) = escape_latex_special_chars (PStr s)"
| "sanitize_data (POther x) = Inr (POther x)"
| "sanitize_items [] acc = Inr acc"
| "sanitize_items ((k, v) # kvs) acc =
     (case sanitize_data v of
        Inl e \<Rightarrow> Inl e
      | Inr v' \<Rightarrow> sanitize_items kvs (dict_setitem acc k v'))"
| "sanitize_elems [] = Inr []"
| "sanitize_elems (x # xs) =
     (case sanitize_data x of
        Inl e \<Rightarrow> Inl e
      | Inr y \<Rightarrow>
          (case sanitize_elems xs of
             Inl e \<Rightarrow> Inl e
           | Inr ys \<Rightarrow> Inr (y # ys)))"

section \<open>Notions used to state the properties\<close>

text \<open>The ten characters the table \<open>conv\<close> has a key for.\<close>

definition special_chars :: "char list" where
  "special_chars =
    [BSL, CHR ''&'', CHR ''%'', CHR ''$'', CHR ''#'', CHR ''_'', CHR ''{'', CHR ''}'',
     CHR ''~'', CHR ''^'']"

text \<open>
  The substitution as the specification words it: every character of the input is looked
  up in the table once, a character with an entry is replaced by the entry's text, any
  other character is copied, and the pieces are concatenated from left to right. Text
  that has been emitted is not looked at again.
\<close>

definition subst_char :: "char \<Rightarrow> string" where
  "subst_char c = (case map_of conv [c] of Some r \<Rightarrow> r | None \<Rightarrow> [c])"

definition single_pass_subst :: "string \<Rightarrow> string" where
  "single_pass_subst s = concat (map subst_char s)"

text \<open>
  A scanner for the output: read from the left, a backslash must start one of the escape
  sequences of the table (a backslash followed by one of the eight escaped characters, or
  by \<open>textasciitilde{}\<close> or \<open>textasciicircum{}\<close>), and none of the characters
  \<open>& % $ # _ { } ~ ^\<close> may stand outside such a sequence.
\<close>

fun no_unescaped_special :: "string \<Rightarrow> bool" where
  "no_unescaped_special [] = True"
| "no_unescaped_special (c # cs) =
     (if c = BSL then
        (case cs of
           [] \<Rightarrow> False
         | d # ds \<Rightarrow>
             if d \<in> set [BSL, CHR ''&'', CHR ''%'', CHR ''$'', CHR ''#'', CHR ''_'',
                          CHR ''{'', CHR ''}'']
             then no_unescaped_special ds
             else if prefix ''textasciitilde{}'' cs
             then no_unescaped_special (drop (length ''textasciitilde{}'') cs)
             else if prefix ''textasciicircum{}'' cs
             then no_unescaped_special (drop (length ''textasciicircum{}'') cs)
             else False)
      else if c \<in> set [CHR ''&'', CHR ''%'', CHR ''$'', CHR ''#'', CHR ''_'', CHR ''{'',
                         CHR ''}'', CHR ''~'', CHR ''^'']
      then False
      else no_unescaped_special cs)"

text \<open>
  The shape of a nested value: its nesting, the keys of every dict in order, the length of
  every list and every leaf that is not a string; a string leaf is only marked. The string
  leaves themselves are listed by \<open>leaf_strings\<close>, in traversal order.
\<close>

datatype ('k, 'a) shape =
    SDict "('k \<times> ('k, 'a) shape) list"
  | SList "('k, 'a) shape list"
  | SStr
  | SOther 'a

fun shape_of :: "('k, 'a) pyval \<Rightarrow> ('k, 'a) shape" where
  "shape_of (PDict d) = SDict (map (\<lambda>kv. (fst kv, shape_of (snd kv))) d)"
| "shape_of (PList xs) = SList (map shape_of xs)"
| "shape_of (PStr s) = SStr"
| "shape_of (POther x) = SOther x"

fun leaf_strings :: "('k, 'a) pyval \<Rightarrow> string list" where
  "leaf_strings (PDict d) = concat (map (\<lambda>kv. leaf_strings (snd kv)) d)"
| "leaf_strings (PList xs) = concat (map leaf_strings xs)"
| "leaf_strings (PStr s) = [s]"
| "leaf_strings (POther x) = []"

text \<open>The value with a function applied to every string leaf and nothing else changed.\<close>

fun map_strings :: "(string \<Rightarrow> string) \<Rightarrow> ('k, 'a) pyval \<Rightarrow> ('k, 'a) pyval" where
  "map_strings f (PDict d) = PDict (map (\<lambda>kv. (fst kv, map_strings f (snd kv))) d)"
| "map_strings f (PList xs) = PList (map (map_strings f) xs)"
| "map_strings f (PStr s) = PStr (f s)"
| "map_strings f (POther x) = POther x"

section \<open>The terminal, the process environment and the record being filled\<close>

text \<open>
  What the terminal delivers to \<open>input()\<close>: a line (without its newline), or an
  end-of-input signal (Ctrl+D). After such a signal a terminal can deliver more.
\<close>

datatype tty_event = Line string | EndOfInput

text \<open>
  What starting an external program does: it cannot be started (\<open>subprocess.run\<close> raises
  the given exception, \<open>FileNotFoundError\<close> when the executable is not found), or it runs
  and exits with a return code, its captured standard output and standard error, and the
  files it leaves behind.
\<close>

datatype launch = CannotStart py_error | Ran int string string "string set"

text \<open>
  The state the program runs in: what the terminal will still deliver, what has been
  written to standard output, the global dict \<open>resume_data\<close>, the regular files of the
  working directory, and the command lines handed to \<open>subprocess.run\<close> so far. A function
  of the program takes the state and returns its result, or the exception it raises,
  together with the new state.
\<close>

record world =
  stdin :: "tty_event list"
  stdout :: string
  resume_data :: "(string \<times> (string, unit) pyval) list"
  files :: "string set"
  launched :: "string list list"

text \<open>\<open>print(s)\<close> writes \<open>s\<close> and a newline.\<close>

definition py_print :: "string \<Rightarrow> world \<Rightarrow> world" where
  "py_print s w = w\<lparr>stdout := stdout w @ s @ [NL]\<rparr>"

text \<open>
  \<open>input(prompt)\<close> writes the prompt and reads one line; it raises \<open>EOFError\<close> on an
  end-of-input signal and when nothing is left to read.
\<close>

definition py_input :: "string \<Rightarrow> world \<Rightarrow> (py_error + string) \<times> world" where
  "py_input prompt w =
     (let w1 = w\<lparr>stdout := stdout w @ prompt\<rparr> in
      case stdin w1 of
        [] \<Rightarrow> (Inl EOFError, w1)
      | EndOfInput # rest \<Rightarrow> (Inl EOFError, w1\<lparr>stdin := rest\<rparr>)
      | Line l # rest \<Rightarrow> (Inr l, w1\<lparr>stdin := rest\<rparr>))"

text \<open>\<open>sep.join(xs)\<close>.\<close>

fun str_join :: "string \<Rightarrow> string list \<Rightarrow> string" where
  "str_join sep [] = []"
| "str_join sep [x] = x"
| "str_join sep (x # y # ys) = x @ sep @ str_join sep (y # ys)"


text \<open>
  The \<open>while True\<close> loop of \<open>get_list_input\<close>, with the list \<open>items\<close> built so far:
  \<open>break\<close> on an empty line, \<open>append\<close> otherwise. An \<open>EOFError\<close> of \<open>input\<close> is not
  caught here.
\<close>

function get_list_input_loop ::
  "string list \<Rightarrow> world \<Rightarrow> (py_error + string list) \<times> world" where
  "get_list_input_loop items w =
     (case py_input ''> '' w of
        (Inl e, w') \<Rightarrow> (Inl e, w')
      | (Inr item, w') \<Rightarrow>
          if item = [] then (Inr items, w')
          else get_list_input_loop (items @ [item]) w')"
  by pat_completeness auto
termination
  by (relation "measure (\<lambda>(items, w). length (stdin w))")
    (auto simp add: py_input_def Let_def split: list.splits tty_event.splits)

definition get_list_input :: "string \<Rightarrow> world \<Rightarrow> (py_error + string list) \<times> world" where
  "get_list_input prompt w =
     get_list_input_loop []
       (py_print (''Enter '' @ prompt
          @ '' (one item per line). Press Enter on an empty line to finish:'') w)"

text \<open>
  The loop of \<open>collect_summary\<close> has no \<open>break\<close>: it ends only by the exception that
  \<open>input()\<close> raises, which is returned with the lines read so far. The \<open>try\<close> around it
  catches \<open>EOFError\<close> alone.
\<close>

function collect_summary_loop :: "string list \<Rightarrow> world \<Rightarrow> py_error \<times> string list \<times> world" where
  "collect_summary_loop summary_lines w =
     (case py_input [] w of
        (Inl e, w') \<Rightarrow> (e, summary_lines, w')
      | (Inr line, w') \<Rightarrow> collect_summary_loop (summary_lines @ [line]) w')"
  by pat_completeness auto
termination
  by (relation "measure (\<lambda>(summary_lines, w). length (stdin w))")
    (auto simp add: py_input_def Let_def split: list.splits tty_event.splits)

definition collect_summary :: "world \<Rightarrow> (py_error + unit) \<times> world" where
  "collect_summary w =
     (let w1 = py_print (NL # ''--- Professional Summary ---'') w;
          w2 = py_print (''Enter your professional summary (a few sentences). ''
                 @ ''Press Ctrl+D (Unix) or Ctrl+Z (Windows) then Enter when done.'') w1
      in case collect_summary_loop [] w2 of
           (EOFError, summary_lines, w3) \<Rightarrow>
             (Inr (), w3\<lparr>resume_data :=
                dict_setitem (resume_data w3) ''summary'' (PStr (str_join '' '' summary_lines))\<rparr>)
         | (e, summary_lines, w3) \<Rightarrow> (Inl e, w3))"











section \<open>The compilation stage of \<open>main\<close>\<close>

text \<open>\<open>str(n)\<close> for an \<open>int\<close>, as an f-string prints it.\<close>

definition digit_char :: "nat \<Rightarrow> char" where
  "digit_char n = ''0123456789'' ! n"

fun str_nat :: "nat \<Rightarrow> string" where
  "str_nat n =
     (if n < 10 then [digit_char n]
      else str_nat (n div 10) @ [digit_char (n mod 10)])"

declare str_nat.simps [simp del]

definition str_int :: "int \<Rightarrow> string" where
  "str_int i = (if i < 0 then ''-'' @ str_nat (nat (- i)) else str_nat (nat i))"

text \<open>The non-ASCII characters of the messages, as their UTF-8 bytes.\<close>

definition hourglass :: string where
  "hourglass = [CHR 0xE2, CHR 0x8F, CHR 0xB3]"

definition check_mark :: string where
  "check_mark = [CHR 0xE2, CHR 0x9C, CHR 0x85]"

definition cross_mark :: string where
  "cross_mark = [CHR 0xE2, CHR 0x9D, CHR 0x8C]"

definition party_popper :: string where
  "party_popper = [CHR 0xF0, CHR 0x9F, CHR 0x8E, CHR 0x89]"

definition output_filename_base :: string where
  "output_filename_base = ''resume''"

definition tex_filename :: string where
  "tex_filename = output_filename_base @ ''.tex''"

definition pdflatex_args :: "string list" where
  "pdflatex_args = [''pdflatex'', ''-interaction=nonstopmode'', tex_filename]"

text \<open>
  \<open>subprocess.run(args, stdout=PIPE, stderr=PIPE, check=True)\<close>. The external program is
  a parameter \<open>os_exec\<close>: from the command line and the files present it gives what the
  launch does. With \<open>check=True\<close> a non-zero return code raises \<open>CalledProcessError\<close>,
  which carries the return code and the captured standard output.
\<close>

definition subprocess_run ::
  "(string list \<Rightarrow> string set \<Rightarrow> launch) \<Rightarrow> string list \<Rightarrow> world
    \<Rightarrow> (py_error + int \<times> string \<times> string) \<times> world" where
  "subprocess_run os_exec args w =
     (let w1 = w\<lparr>launched := launched w @ [args]\<rparr> in
      case os_exec args (files w) of
        CannotStart e \<Rightarrow> (Inl e, w1)
      | Ran returncode out err fs \<Rightarrow>
          if returncode \<noteq> 0 then (Inl (CalledProcessError returncode out), w1\<lparr>files := fs\<rparr>)
          else (Inr (returncode, out, err), w1\<lparr>files := fs\<rparr>))"

text \<open>The loop \<open>for i in range(2)\<close> over the remaining values of \<open>i\<close>.\<close>

fun compile_passes ::
  "(string list \<Rightarrow> string set \<Rightarrow> launch) \<Rightarrow> nat list \<Rightarrow> world \<Rightarrow> (py_error + unit) \<times> world" where
  "compile_passes os_exec [] w = (Inr (), w)"
| "compile_passes os_exec (i # later) w =
     (case subprocess_run os_exec pdflatex_args w of
        (Inl e, w') \<Rightarrow> (Inl e, w')
      | (Inr process, w') \<Rightarrow> compile_passes os_exec later w')"

text \<open>
  The \<open>try\<close> block of \<open>main\<close> with its two \<open>except\<close> clauses: the two passes and the
  success message, or the messages of the handler and its \<open>return\<close>; any other
  exception is not caught. \<open>decode_ignore\<close> stands for
  \<open>bytes.decode('utf-8', errors='ignore')\<close>.
\<close>

definition main_compile_try ::
  "(string list \<Rightarrow> string set \<Rightarrow> launch) \<Rightarrow> (string \<Rightarrow> string) \<Rightarrow> world
    \<Rightarrow> (py_error + unit) \<times> world" where
  "main_compile_try os_exec decode_ignore w =
     (case compile_passes os_exec [0, 1] w of
        (Inr u, w1) \<Rightarrow>
          (Inr (),
           py_print (check_mark @ '' Success! Your resume has been generated as ''
             @ [CHR 0x27] @ output_filename_base @ ''.pdf'. '' @ party_popper) w1)
      | (Inl FileNotFoundError, w1) \<Rightarrow>
          (Inr (),
           py_print (''Please ensure you have a LaTeX distribution (like MiKTeX, TeX Live, ''
               @ ''or MacTeX) installed and in your system's PATH.'')
             (py_print (NL # cross_mark @ '' Error: 'pdflatex' command not found.'') w1))
      | (Inl (CalledProcessError returncode out), w1) \<Rightarrow>
          (Inr (),
           py_print (decode_ignore out)
             (py_print (NL # ''--- LaTeX Output ---'')
               (py_print ''Please check the 'resume.log' file for detailed LaTeX errors.''
                 (py_print (NL # cross_mark
                    @ '' Error during PDF compilation. LaTeX returned a non-zero exit code: ''
                    @ str_int returncode) w1))))
      | (Inl e, w1) \<Rightarrow> (Inl e, w1))"

text \<open>
  The \<open>finally\<close> block: for each extension, \<open>os.remove\<close> if \<open>os.path.exists\<close>. The
  working directory is modelled as a set of regular files, on which \<open>os.remove\<close> does
  not fail.
\<close>

fun clean_extensions :: "string list \<Rightarrow> world \<Rightarrow> world" where
  "clean_extensions [] w = w"
| "clean_extensions (ext # exts) w =
     clean_extensions exts
       (if output_filename_base @ ext \<in> files w
        then w\<lparr>files := files w - {output_filename_base @ ext}\<rparr>
        else w)"

text \<open>
  Step 6 and 7 of \<open>main\<close>, from the message \<open>Compiling to PDF...\<close> on: the \<open>try\<close>
  block, then the \<open>finally\<close> block on every way out of it.
\<close>

definition main_compile ::
  "(string list \<Rightarrow> string set \<Rightarrow> launch) \<Rightarrow> (string \<Rightarrow> string) \<Rightarrow> world
    \<Rightarrow> (py_error + unit) \<times> world" where
  "main_compile os_exec decode_ignore w =
     (case main_compile_try os_exec decode_ignore
             (py_print (''Compiling to PDF... this may take a moment. '' @ hourglass) w) of
        (r, w') \<Rightarrow> (r, clean_extensions [''.aux'', ''.log'', ''.out''] w'))"

section \<open>Notions used to state the properties of the collectors and of the compilation\<close>













text \<open>The auxiliary files the cleanup removes.\<close>

definition aux_files :: "string set" where
  "aux_files = {''resume.aux'', ''resume.log'', ''resume.out''}"

section \<open>Termination of the collection loops\<close>











declare get_list_input_loop.simps [simp del]
declare collect_summary_loop.simps [simp del]

section \<open>Properties of the escaping function\<close>

lemma regex_alternatives_eval:
  "regex_alternatives =
    [[BSL], ''&'', ''%'', ''$'', ''#'', ''_'', ''{'', ''}'', ''~'', ''^'']"
  by (simp add: regex_alternatives_def conv_def)

lemma match_nil: "regex_match_at regex_alternatives [] = None"
  by (simp add: regex_alternatives_eval)

lemma match_cons:
  "regex_match_at regex_alternatives (c # rest) =
     (if c \<in> set special_chars then Some [c] else None)"
  by (simp add: regex_alternatives_eval special_chars_def)

lemma getitem_conv:
  "c \<in> set special_chars \<Longrightarrow> dict_getitem conv [c] = Inr (subst_char c)"
  by (auto simp add: special_chars_def conv_def subst_char_def)

lemma subst_char_other:
  "c \<notin> set special_chars \<Longrightarrow> subst_char c = [c]"
  by (simp add: special_chars_def conv_def subst_char_def)

lemma regex_sub_conv:
  "regex_sub regex_alternatives (dict_getitem conv) s = Inr (single_pass_subst s)"
proof (induction s)
  case Nil
  show ?case by (simp add: match_nil single_pass_subst_def)
next
  case (Cons c s)
  show ?case
  proof (cases "c \<in> set special_chars")
    case True
    then show ?thesis
      using Cons by (simp add: match_cons getitem_conv single_pass_subst_def)
  next
    case False
    then show ?thesis
      using Cons by (simp add: match_cons subst_char_other single_pass_subst_def)
  qed
qed

lemma escape_str: "escape_latex_special_chars (PStr s) = Inr (PStr (single_pass_subst s))"
  by (simp add: escape_latex_special_chars_def regex_sub_conv)

lemma single_pass_append:
  "single_pass_subst (xs @ ys) = single_pass_subst xs @ single_pass_subst ys"
  by (simp add: single_pass_subst_def)

lemma scan_subst_char:
  "no_unescaped_special (subst_char c @ rest) = no_unescaped_special rest"
proof (cases "c \<in> set special_chars")
  case True
  then show ?thesis
    by (auto simp add: special_chars_def subst_char_def conv_def)
next
  case False
  then show ?thesis
    by (simp add: subst_char_other) (simp add: special_chars_def)
qed

lemma scan_single_pass: "no_unescaped_special (single_pass_subst s)"
  by (induction s) (simp_all add: single_pass_subst_def scan_subst_char)

lemma raw_free_subst_char:
  "CHR ''~'' \<notin> set (subst_char c) \<and> CHR ''^'' \<notin> set (subst_char c)"
proof (cases "c \<in> set special_chars")
  case True
  then show ?thesis
    by (auto simp add: special_chars_def subst_char_def conv_def)
next
  case False
  then show ?thesis
    by (simp add: subst_char_other) (auto simp add: special_chars_def)
qed

lemma raw_free_single_pass:
  "CHR ''~'' \<notin> set (single_pass_subst s) \<and> CHR ''^'' \<notin> set (single_pass_subst s)"
  by (induction s) (simp_all add: single_pass_subst_def raw_free_subst_char)

text \<open>
  Claim C1. For every string \<open>s\<close> the call returns a string (it raises nothing); read from
  the left, that string consists of characters outside the table and of escape sequences
  of the table only, so none of \<open>\ & % $ # _ { }\<close> occurs outside an escape sequence, and
  neither \<open>~\<close> nor \<open>^\<close> occurs in it at all. Every \<open>~\<close> of the input has become
  \<open>\textasciitilde{}\<close> and every \<open>^\<close> has become \<open>\textasciicircum{}\<close>, at its place.
\<close>

theorem escape_output_has_no_unescaped_special:
  "(\<exists>t. escape_latex_special_chars (PStr s) = Inr (PStr t)
        \<and> no_unescaped_special t
        \<and> CHR ''~'' \<notin> set t \<and> CHR ''^'' \<notin> set t)
   \<and> (\<exists>a b. escape_latex_special_chars (PStr xs) = Inr (PStr a)
        \<and> escape_latex_special_chars (PStr ys) = Inr (PStr b)
        \<and> escape_latex_special_chars (PStr (xs @ ''~'' @ ys))
            = Inr (PStr (a @ BSL # ''textasciitilde{}'' @ b))
        \<and> escape_latex_special_chars (PStr (xs @ ''^'' @ ys))
            = Inr (PStr (a @ BSL # ''textasciicircum{}'' @ b)))"
proof -
  have tilde: "single_pass_subst ''~'' = BSL # ''textasciitilde{}''"
    by (simp add: single_pass_subst_def subst_char_def conv_def)
  have caret: "single_pass_subst ''^'' = BSL # ''textasciicircum{}''"
    by (simp add: single_pass_subst_def subst_char_def conv_def)
  have "escape_latex_special_chars (PStr (xs @ ''~'' @ ys))
          = Inr (PStr (single_pass_subst xs @ BSL # ''textasciitilde{}'' @ single_pass_subst ys))"
    using tilde by (simp only: escape_str single_pass_append) simp
  moreover have "escape_latex_special_chars (PStr (xs @ ''^'' @ ys))
          = Inr (PStr (single_pass_subst xs @ BSL # ''textasciicircum{}'' @ single_pass_subst ys))"
    using caret by (simp only: escape_str single_pass_append) simp
  ultimately show ?thesis
    using scan_single_pass [of s] raw_free_single_pass [of s]
    by (simp add: escape_str del: no_unescaped_special.simps)
qed

text \<open>
  Claim C2. For every string \<open>s\<close> the call returns the single left-to-right substitution
  of \<open>s\<close>: the concatenation, in order, of one piece per input character, the piece being
  the table's replacement where the character has an entry and the character itself
  otherwise. Replacement text is never looked up again: \<open>~\<close> becomes
  \<open>\textasciitilde{}\<close> with its braces as they are, and the backslash put before \<open>&\<close> is
  not doubled.
\<close>

theorem escape_is_single_pass_substitution:
  "escape_latex_special_chars (PStr s) = Inr (PStr (single_pass_subst s))
   \<and> single_pass_subst (xs @ ys) = single_pass_subst xs @ single_pass_subst ys
   \<and> single_pass_subst [c] = (if c \<in> set special_chars then subst_char c else [c])
   \<and> escape_latex_special_chars (PStr ''~'') = Inr (PStr (BSL # ''textasciitilde{}''))
   \<and> escape_latex_special_chars (PStr ''a&b'') = Inr (PStr (''a'' @ BSL # ''&b''))"
proof -
  have one: "single_pass_subst [c] = (if c \<in> set special_chars then subst_char c else [c])"
    by (simp add: single_pass_subst_def subst_char_other)
  have tilde: "single_pass_subst ''~'' = BSL # ''textasciitilde{}''"
    by (simp add: single_pass_subst_def subst_char_def conv_def)
  have amp: "single_pass_subst ''a&b'' = ''a'' @ BSL # ''&b''"
    by (simp add: single_pass_subst_def subst_char_def conv_def)
  have e1: "escape_latex_special_chars (PStr ''~'') = Inr (PStr (BSL # ''textasciitilde{}''))"
    by (simp only: escape_str tilde)
  have e2: "escape_latex_special_chars (PStr ''a&b'') = Inr (PStr (''a'' @ BSL # ''&b''))"
    by (simp only: escape_str amp)
  show ?thesis
    by (intro conjI) (rule escape_str single_pass_append one e1 e2)+
qed

text \<open>
  Claim C10. The escaping function is not idempotent. On \<open>&\<close> the first application
  gives \<open>\&\<close> and a second one gives \<open>\\\&\<close>: the backslash the first one introduced is
  escaped again. On \<open>~\<close> the second application escapes the backslash and both braces of
  \<open>\textasciitilde{}\<close>.
\<close>

theorem escape_not_idempotent:
  "escape_latex_special_chars (PStr ''&'') = Inr (PStr (BSL # ''&''))
   \<and> escape_latex_special_chars (PStr (BSL # ''&'')) = Inr (PStr ([BSL, BSL, BSL] @ ''&''))
   \<and> [BSL, BSL, BSL] @ ''&'' \<noteq> BSL # ''&''
   \<and> escape_latex_special_chars (PStr ''~'') = Inr (PStr (BSL # ''textasciitilde{}''))
   \<and> escape_latex_special_chars (PStr (BSL # ''textasciitilde{}''))
        = Inr (PStr ([BSL, BSL] @ ''textasciitilde'' @ [BSL, CHR ''{'', BSL, CHR ''}'']))
   \<and> (\<exists>s t u. escape_latex_special_chars (PStr s) = Inr (PStr t)
          \<and> escape_latex_special_chars (PStr t) = Inr (PStr u)
          \<and> u \<noteq> t)"
proof -
  have a1: "single_pass_subst ''&'' = BSL # ''&''"
    by (simp add: single_pass_subst_def subst_char_def conv_def)
  have a2: "single_pass_subst (BSL # ''&'') = [BSL, BSL, BSL] @ ''&''"
    by (simp add: single_pass_subst_def subst_char_def conv_def)
  have t1: "single_pass_subst ''~'' = BSL # ''textasciitilde{}''"
    by (simp add: single_pass_subst_def subst_char_def conv_def)
  have t2: "single_pass_subst (BSL # ''textasciitilde{}'')
              = [BSL, BSL] @ ''textasciitilde'' @ [BSL, CHR ''{'', BSL, CHR ''}'']"
    by (simp add: single_pass_subst_def subst_char_def conv_def)
  have "escape_latex_special_chars (PStr ''&'') = Inr (PStr (BSL # ''&''))
      \<and> escape_latex_special_chars (PStr (BSL # ''&'')) = Inr (PStr ([BSL, BSL, BSL] @ ''&''))
      \<and> [BSL, BSL, BSL] @ ''&'' \<noteq> BSL # ''&''"
    by (simp add: escape_str a1 a2)
  then have "\<exists>s t u. escape_latex_special_chars (PStr s) = Inr (PStr t)
          \<and> escape_latex_special_chars (PStr t) = Inr (PStr u)
          \<and> u \<noteq> t"
    by blast
  then show ?thesis
    by (simp add: escape_str a1 a2 t1 t2)
qed

section \<open>Properties of the recursive sanitizer\<close>

lemma dict_setitem_new:
  "k \<notin> fst ` set d \<Longrightarrow> dict_setitem d k v = d @ [(k, v)]"
  by (induction d) auto

lemma sanitize_all:
  fixes v :: "('k, 'a) pyval"
    and kvs acc :: "('k \<times> ('k, 'a) pyval) list"
    and xs :: "('k, 'a) pyval list"
  shows "wf_pyval v \<Longrightarrow> sanitize_data v = Inr (map_strings single_pass_subst v)"
    and "distinct (map fst acc @ map fst kvs) \<Longrightarrow> list_all (\<lambda>kv. wf_pyval (snd kv)) kvs \<Longrightarrow>
         sanitize_items kvs acc
           = Inr (acc @ map (\<lambda>kv. (fst kv, map_strings single_pass_subst (snd kv))) kvs)"
    and "list_all wf_pyval xs \<Longrightarrow>
         sanitize_elems xs = Inr (map (map_strings single_pass_subst) xs)"
proof (induction v and kvs acc and xs rule: sanitize_data_sanitize_items_sanitize_elems.induct)
  case (1 d)
  then show ?case by simp
next
  case (2 xs)
  then show ?case by simp
next
  case (3 s)
  show ?case by (simp add: escape_str)
next
  case (4 x)
  show ?case by simp
next
  case (5 acc)
  show ?case by simp
next
  case (6 k v kvs acc)
  from "6.prems" have wf: "wf_pyval v" and rest: "list_all (\<lambda>kv. wf_pyval (snd kv)) kvs"
    by simp_all
  from "6.prems" have new: "k \<notin> fst ` set acc"
    by auto
  have step: "sanitize_data v = Inr (map_strings single_pass_subst v)"
    using "6.IH"(1) wf .
  have d: "distinct (map fst (dict_setitem acc k (map_strings single_pass_subst v)) @ map fst kvs)"
    using "6.prems"(1) new by (simp add: dict_setitem_new)
  show ?case
    using "6.IH"(2) [OF step d rest] step new by (simp add: dict_setitem_new)
next
  case 7
  show ?case by simp
next
  case (8 x xs)
  then show ?case by simp
qed

lemma shape_map_strings: "shape_of (map_strings f v) = shape_of v"
  by (induction f v rule: map_strings.induct) (simp_all add: comp_def)

lemma leaf_map_strings: "leaf_strings (map_strings f v) = map f (leaf_strings v)"
proof (induction f v rule: map_strings.induct)
  case (1 f d)
  have eq: "map (\<lambda>kv. leaf_strings (map_strings f (snd kv))) d
          = map (\<lambda>kv. map f (leaf_strings (snd kv))) d"
    by (rule map_cong) (simp_all add: 1)
  show ?case by (simp add: comp_def map_concat eq)
next
  case (2 f xs)
  have eq: "map (\<lambda>x. leaf_strings (map_strings f x)) xs = map (\<lambda>x. map f (leaf_strings x)) xs"
    by (rule map_cong) (simp_all add: 2)
  show ?case by (simp add: comp_def map_concat eq)
qed simp_all

lemma map_strings_id:
  "list_all (\<lambda>s. f s = s) (leaf_strings v) \<Longrightarrow> map_strings f v = v"
proof (induction f v rule: map_strings.induct)
  case (1 f d)
  have "kv \<in> set d \<Longrightarrow> (fst kv, map_strings f (snd kv)) = kv" for kv
    using 1 by (cases kv) (auto simp add: list_all_iff)
  then show ?case by (simp add: map_idI)
next
  case (2 f xs)
  have "x \<in> set xs \<Longrightarrow> map_strings f x = x" for x
    using 2 by (auto simp add: list_all_iff)
  then show ?case by (simp add: map_idI)
qed simp_all

lemma single_pass_plain:
  "list_all (\<lambda>c. c \<notin> set special_chars) s \<Longrightarrow> single_pass_subst s = s"
  by (induction s) (simp_all add: single_pass_subst_def subst_char_other)

text \<open>
  Claim C3. On every nested value (whose dicts hold each key once, as every Python dict
  does) \<open>sanitize_data\<close> returns a value, and that value has the shape of the input: the
  same nesting, the same keys in every dict, the same length of every list and the same
  non-string leaves. Its string leaves are, one for one and in order, the results of
  \<open>escape_latex_special_chars\<close> on the string leaves of the input.
\<close>

theorem sanitize_data_preserves_structure:
  assumes "wf_pyval v"
  shows "\<exists>v'. sanitize_data v = Inr v'
           \<and> shape_of v' = shape_of v
           \<and> list_all2 (\<lambda>s t. escape_latex_special_chars (PStr s) = Inr (PStr t))
                (leaf_strings v) (leaf_strings v')"
proof -
  have "list_all2 (\<lambda>s t. escape_latex_special_chars (PStr s) = Inr (PStr t))
          (leaf_strings v) (map single_pass_subst (leaf_strings v))"
    by (simp add: list_all2_map2 escape_str list_all2_same)
  then show ?thesis
    using sanitize_all(1) [OF assms]
    by (simp add: shape_map_strings leaf_map_strings)
qed

theorem sanitize_data_preserves_structure_witness:
  "wf_pyval (PDict [(''company'', PStr ''Acme & Co''),
       (''description'', PList [PStr ''Built 50% faster pipeline'', POther (7::nat)])])
   \<and> (\<exists>v'. sanitize_data (PDict [(''company'', PStr ''Acme & Co''),
               (''description'', PList [PStr ''Built 50% faster pipeline'', POther (7::nat)])])
             = Inr v'
          \<and> shape_of v'
             = SDict [(''company'', SStr), (''description'', SList [SStr, SOther 7])]
          \<and> list_all2 (\<lambda>s t. escape_latex_special_chars (PStr s) = Inr (PStr t))
               [''Acme & Co'', ''Built 50% faster pipeline''] (leaf_strings v'))"
  using sanitize_data_preserves_structure
    [of "PDict [(''company'', PStr ''Acme & Co''),
       (''description'', PList [PStr ''Built 50% faster pipeline'', POther (7::nat)])]"]
  by simp

text \<open>
  Claim C4. On a nested value none of whose strings contains one of the ten special
  characters, \<open>sanitize_data\<close> returns the value itself.
\<close>

theorem sanitize_data_identity_without_specials:
  assumes "wf_pyval v"
    and "list_all (\<lambda>s. list_all (\<lambda>c. c \<notin> set special_chars) s) (leaf_strings v)"
  shows "sanitize_data v = Inr v"
proof -
  have "list_all (\<lambda>s. single_pass_subst s = s) (leaf_strings v)"
    using assms(2) by (auto simp add: list_all_iff intro: single_pass_plain)
  then show ?thesis
    using sanitize_all(1) [OF assms(1)] by (simp add: map_strings_id)
qed

theorem sanitize_data_identity_without_specials_witness:
  "wf_pyval (PDict [(''name'', PStr ''Ada''), (''skills'', PList [PStr ''C'', POther True])])
   \<and> list_all (\<lambda>s. list_all (\<lambda>c. c \<notin> set special_chars) s)
        (leaf_strings (PDict [(''name'', PStr ''Ada''), (''skills'', PList [PStr ''C'', POther True])]))
   \<and> sanitize_data (PDict [(''name'', PStr ''Ada''), (''skills'', PList [PStr ''C'', POther True])])
      = Inr (PDict [(''name'', PStr ''Ada''), (''skills'', PList [PStr ''C'', POther True])])"
  using sanitize_data_identity_without_specials
    [of "PDict [(''name'', PStr ''Ada''), (''skills'', PList [PStr ''C'', POther True])]"]
  by (simp add: special_chars_def)

section \<open>Properties of the collectors\<close>

lemma py_print_lit:
  "py_print s \<lparr>stdin = i, stdout = out, resume_data = rd, files = fs, launched = la\<rparr>
     = \<lparr>stdin = i, stdout = out @ s @ [NL], resume_data = rd, files = fs, launched = la\<rparr>"
  by (simp add: py_print_def)


lemma get_list_input_loop_lines:
  "[] \<notin> set d \<Longrightarrow>
   get_list_input_loop items
     \<lparr>stdin = map Line d @ Line [] # r, stdout = out, resume_data = rd, files = fs,
      launched = la\<rparr>
     = (Inr (items @ d),
        \<lparr>stdin = r, stdout = out @ concat (replicate (Suc (length d)) ''> ''),
         resume_data = rd, files = fs, launched = la\<rparr>)"
proof (induction d arbitrary: items out)
  case Nil
  show ?case
    by (subst get_list_input_loop.simps) (simp add: py_input_def)
next
  case (Cons l d)
  then have "l \<noteq> []" and "[] \<notin> set d" by auto
  then show ?case
    using Cons.IH [of "items @ [l]" "out @ ''> ''"]
    by (subst get_list_input_loop.simps) (simp add: py_input_def)
qed

lemma get_list_input_lines:
  "[] \<notin> set d \<Longrightarrow>
   get_list_input p
     \<lparr>stdin = map Line d @ Line [] # r, stdout = out, resume_data = rd, files = fs,
      launched = la\<rparr>
     = (Inr d,
        \<lparr>stdin = r,
         stdout = (out @ ''Enter '' @ p
             @ '' (one item per line). Press Enter on an empty line to finish:'' @ [NL])
             @ concat (replicate (Suc (length d)) ''> ''),
         resume_data = rd, files = fs, launched = la\<rparr>)"
  using get_list_input_loop_lines [where d = d and items = "[]"]
  by (simp add: get_list_input_def py_print_lit)






lemma collect_summary_loop_lines:
  "collect_summary_loop acc
     \<lparr>stdin = map Line ls @ EndOfInput # r, stdout = out, resume_data = rd, files = fs,
      launched = la\<rparr>
     = (EOFError, acc @ ls,
        \<lparr>stdin = r, stdout = out, resume_data = rd, files = fs, launched = la\<rparr>)"
proof (induction ls arbitrary: acc)
  case Nil
  show ?case
    by (subst collect_summary_loop.simps) (simp add: py_input_def)
next
  case (Cons l ls)
  show ?case
    using Cons.IH [of "acc @ [l]"]
    by (subst collect_summary_loop.simps) (simp add: py_input_def)
qed

lemma collect_summary_loop_exhausted:
  "collect_summary_loop acc
     \<lparr>stdin = map Line ls, stdout = out, resume_data = rd, files = fs, launched = la\<rparr>
     = (EOFError, acc @ ls,
        \<lparr>stdin = [], stdout = out, resume_data = rd, files = fs, launched = la\<rparr>)"
proof (induction ls arbitrary: acc)
  case Nil
  show ?case
    by (subst collect_summary_loop.simps) (simp add: py_input_def)
next
  case (Cons l ls)
  show ?case
    using Cons.IH [of "acc @ [l]"]
    by (subst collect_summary_loop.simps) (simp add: py_input_def)
qed








text \<open>
  Claim C6. When the terminal delivers non-empty lines followed by an empty line,
  \<open>get_list_input\<close> returns exactly those lines in order, without the empty line, and
  has consumed them and the empty line. When the first line is already empty it returns
  the empty list.
\<close>

theorem get_list_input_returns_lines_before_blank:
  assumes "[] \<notin> set d"
  shows "(\<exists>w'. get_list_input prompt (w\<lparr>stdin := map Line d @ Line [] # rest\<rparr>) = (Inr d, w')
            \<and> stdin w' = rest \<and> resume_data w' = resume_data w)
     \<and> (\<exists>w'. get_list_input prompt (w\<lparr>stdin := Line [] # rest\<rparr>) = (Inr [], w')
            \<and> stdin w' = rest \<and> resume_data w' = resume_data w)"
proof (cases w)
  case (fields i out rd fs la)
  have "[] \<notin> set ([] :: string list)" by simp
  from get_list_input_lines [OF this, of prompt rest out rd fs la]
    get_list_input_lines [OF assms, of prompt rest out rd fs la]
  show ?thesis
    by (simp add: fields)
qed

theorem get_list_input_returns_lines_before_blank_witness:
  "[] \<notin> set [''Built 50% faster pipeline'', ''Led a team'']
   \<and> (\<exists>w'. get_list_input ''description points''
              (\<lparr>stdin = [], stdout = [], resume_data = [], files = {}, launched = []\<rparr>
                 \<lparr>stdin := map Line [''Built 50% faster pipeline'', ''Led a team'']
                    @ Line [] # [Line ''next'']\<rparr>)
            = (Inr [''Built 50% faster pipeline'', ''Led a team''], w')
          \<and> stdin w' = [Line ''next''] \<and> resume_data w' = [])"
  using get_list_input_returns_lines_before_blank [where d = "[''Built 50% faster pipeline'', ''Led a team'']"
      and prompt = "''description points''"
      and w = "\<lparr>stdin = [], stdout = [], resume_data = [], files = {}, launched = []\<rparr>"
      and rest = "[Line ''next'']"]
  by simp

lemma map_of_dict_setitem:
  "map_of (dict_setitem d k v) = (map_of d)(k \<mapsto> v)"
  by (induction d) auto

text \<open>
  Claim C7. \<open>collect_summary\<close> reads lines until the terminal signals end of input (or
  the input is exhausted), whatever the lines are, blank ones included, and stores under
  \<open>summary\<close> the lines joined by one space: afterwards \<open>resume_data\<close> maps \<open>summary\<close>
  to the joined string and every other key to what it held before. With \<open>name\<close> already
  stored, the lines \<open>Engineer.\<close> and \<open>Loves systems.\<close> followed by the end-of-input
  signal leave the record \<open>{name: Ada, summary: Engineer. Loves systems.}\<close>, with no
  terminator in it and the next line of the terminal unread. A blank line between two
  lines does not end the summary: it is kept as an empty piece of the join, and a summary
  stored earlier is replaced.
\<close>

theorem collect_summary_joins_lines_until_end_of_input:
  "(\<exists>w'. collect_summary (w\<lparr>stdin := map Line ls @ EndOfInput # rest\<rparr>) = (Inr (), w')
        \<and> stdin w' = rest
        \<and> resume_data w' = dict_setitem (resume_data w) ''summary'' (PStr (str_join '' '' ls))
        \<and> map_of (resume_data w')
            = (map_of (resume_data w))(''summary'' \<mapsto> PStr (str_join '' '' ls)))
   \<and> (\<exists>w'. collect_summary (w\<lparr>stdin := map Line ls\<rparr>) = (Inr (), w')
        \<and> stdin w' = []
        \<and> resume_data w' = dict_setitem (resume_data w) ''summary'' (PStr (str_join '' '' ls))
        \<and> map_of (resume_data w')
            = (map_of (resume_data w))(''summary'' \<mapsto> PStr (str_join '' '' ls)))
   \<and> str_join '' '' [''Engineer.'', ''Loves systems.''] = ''Engineer. Loves systems.''
   \<and> str_join '' '' [''a'', [], ''b''] = ''a  b''
   \<and> collect_summary
        \<lparr>stdin = [Line ''Engineer.'', Line ''Loves systems.'', EndOfInput, Line ''Python''],
         stdout = [], resume_data = [(''name'', PStr ''Ada'')], files = {}, launched = []\<rparr>
       = (Inr (),
          \<lparr>stdin = [Line ''Python''],
           stdout = NL # ''--- Professional Summary ---'' @ [NL]
             @ ''Enter your professional summary (a few sentences). ''
             @ ''Press Ctrl+D (Unix) or Ctrl+Z (Windows) then Enter when done.'' @ [NL],
           resume_data = [(''name'', PStr ''Ada''),
                          (''summary'', PStr ''Engineer. Loves systems.'')],
           files = {}, launched = []\<rparr>)
   \<and> collect_summary
        \<lparr>stdin = [Line ''a'', Line [], Line ''b'', EndOfInput],
         stdout = [], resume_data = [(''summary'', PStr ''old''), (''name'', PStr ''Ada'')],
         files = {}, launched = []\<rparr>
       = (Inr (),
          \<lparr>stdin = [],
           stdout = NL # ''--- Professional Summary ---'' @ [NL]
             @ ''Enter your professional summary (a few sentences). ''
             @ ''Press Ctrl+D (Unix) or Ctrl+Z (Windows) then Enter when done.'' @ [NL],
           resume_data = [(''summary'', PStr ''a  b''), (''name'', PStr ''Ada'')],
           files = {}, launched = []\<rparr>)"
proof -
  obtain i out rd fs la
    where w: "w = \<lparr>stdin = i, stdout = out, resume_data = rd, files = fs, launched = la\<rparr>"
    by (cases w) auto
  have general: "(\<exists>w'. collect_summary (w\<lparr>stdin := map Line ls @ EndOfInput # rest\<rparr>) = (Inr (), w')
        \<and> stdin w' = rest
        \<and> resume_data w' = dict_setitem (resume_data w) ''summary'' (PStr (str_join '' '' ls))
        \<and> map_of (resume_data w')
            = (map_of (resume_data w))(''summary'' \<mapsto> PStr (str_join '' '' ls)))
   \<and> (\<exists>w'. collect_summary (w\<lparr>stdin := map Line ls\<rparr>) = (Inr (), w')
        \<and> stdin w' = []
        \<and> resume_data w' = dict_setitem (resume_data w) ''summary'' (PStr (str_join '' '' ls))
        \<and> map_of (resume_data w')
            = (map_of (resume_data w))(''summary'' \<mapsto> PStr (str_join '' '' ls)))"
    by (simp add: w collect_summary_def py_print_lit collect_summary_loop_lines
        collect_summary_loop_exhausted map_of_dict_setitem del: dict_setitem.simps)
  have joins: "str_join '' '' [''Engineer.'', ''Loves systems.''] = ''Engineer. Loves systems.''
      \<and> str_join '' '' [''a'', [], ''b''] = ''a  b''"
    by simp
  have scenario: "collect_summary
        \<lparr>stdin = [Line ''Engineer.'', Line ''Loves systems.'', EndOfInput, Line ''Python''],
         stdout = [], resume_data = [(''name'', PStr ''Ada'')], files = {}, launched = []\<rparr>
       = (Inr (),
          \<lparr>stdin = [Line ''Python''],
           stdout = NL # ''--- Professional Summary ---'' @ [NL]
             @ ''Enter your professional summary (a few sentences). ''
             @ ''Press Ctrl+D (Unix) or Ctrl+Z (Windows) then Enter when done.'' @ [NL],
           resume_data = [(''name'', PStr ''Ada''),
                          (''summary'', PStr ''Engineer. Loves systems.'')],
           files = {}, launched = []\<rparr>)"
    using collect_summary_loop_lines
      [where acc = "[]" and ls = "[''Engineer.'', ''Loves systems.'']" and r = "[Line ''Python'']"]
    by (simp add: collect_summary_def py_print_lit)
  have blank: "collect_summary
        \<lparr>stdin = [Line ''a'', Line [], Line ''b'', EndOfInput],
         stdout = [], resume_data = [(''summary'', PStr ''old''), (''name'', PStr ''Ada'')],
         files = {}, launched = []\<rparr>
       = (Inr (),
          \<lparr>stdin = [],
           stdout = NL # ''--- Professional Summary ---'' @ [NL]
             @ ''Enter your professional summary (a few sentences). ''
             @ ''Press Ctrl+D (Unix) or Ctrl+Z (Windows) then Enter when done.'' @ [NL],
           resume_data = [(''summary'', PStr ''a  b''), (''name'', PStr ''Ada'')],
           files = {}, launched = []\<rparr>)"
    using collect_summary_loop_lines
      [where acc = "[]" and ls = "[''a'', [], ''b'']" and r = "[]"]
    by (simp add: collect_summary_def py_print_lit)
  show ?thesis
    using general joins scenario blank by (intro conjI) blast+
qed

section \<open>Properties of the compilation stage\<close>

lemma clean_extensions_lit:
  "clean_extensions exts
     \<lparr>stdin = i, stdout = out, resume_data = rd, files = fs, launched = la\<rparr>
   = \<lparr>stdin = i, stdout = out, resume_data = rd,
      files = fs - (\<lambda>ext. output_filename_base @ ext) ` set exts, launched = la\<rparr>"
  by (induction exts arbitrary: fs) (auto simp add: insert_Diff_if)

lemma clean_extensions_files:
  "files (clean_extensions exts w) = files w - (\<lambda>ext. output_filename_base @ ext) ` set exts"
  by (cases w) (simp add: clean_extensions_lit)







lemma aux_image:
  "(\<lambda>ext. output_filename_base @ ext) ` set [''.aux'', ''.log'', ''.out''] = aux_files"
  by (simp add: output_filename_base_def aux_files_def)

lemma main_compile_files:
  "files (snd (main_compile os_exec dec w))
     = files (snd (main_compile_try os_exec dec
         (py_print (''Compiling to PDF... this may take a moment. '' @ hourglass) w)))
       - aux_files"
  by (simp add: main_compile_def case_prod_beta clean_extensions_files aux_files_def
      output_filename_base_def del: clean_extensions.simps)




text \<open>
  Claim C9. On every exit path of the compilation stage the files left by the
  \<open>try\<close> block lose \<open>resume.aux\<close>, \<open>resume.log\<close> and \<open>resume.out\<close> and nothing else;
  none of the three remains. This holds after two successful runs, after a run with a
  non-zero exit code, and when the compiler is not found; in that last case the stage
  prints the not-found message, starts nothing else, leaves \<open>resume.pdf\<close> absent if
  it was absent, and returns.
\<close>

theorem cleanup_runs_on_every_exit_path:
  "files (snd (main_compile os_exec dec w)) \<inter> aux_files = {}
   \<and> files (snd (main_compile os_exec dec w))
       = files (snd (main_compile_try os_exec dec
           (py_print (''Compiling to PDF... this may take a moment. '' @ hourglass) w)))
         - aux_files
   \<and> (os_exec pdflatex_args (files w) = Ran 0 out1 err1 fs1
        \<and> os_exec pdflatex_args fs1 = Ran 0 out2 err2 fs2 \<longrightarrow>
        fst (main_compile os_exec dec w) = Inr ()
        \<and> files (snd (main_compile os_exec dec w)) = fs2 - aux_files)
   \<and> (os_exec pdflatex_args (files w) = Ran returncode out err fs \<and> returncode \<noteq> 0 \<longrightarrow>
        fst (main_compile os_exec dec w) = Inr ()
        \<and> files (snd (main_compile os_exec dec w)) = fs - aux_files)
   \<and> (os_exec pdflatex_args (files w) = CannotStart FileNotFoundError \<longrightarrow>
        main_compile os_exec dec w =
          (Inr (),
           w\<lparr>stdout := stdout w
                @ ''Compiling to PDF... this may take a moment. '' @ hourglass @ [NL]
                @ NL # cross_mark @ '' Error: 'pdflatex' command not found.'' @ [NL]
                @ ''Please ensure you have a LaTeX distribution (like MiKTeX, TeX Live, ''
                @ ''or MacTeX) installed and in your system's PATH.'' @ [NL],
              files := files w - aux_files,
              launched := launched w @ [pdflatex_args]\<rparr>)
        \<and> (''resume.pdf'' \<in> files (snd (main_compile os_exec dec w)))
            = (''resume.pdf'' \<in> files w))"
proof -
  obtain i outp rd fs0 la
    where w: "w = \<lparr>stdin = i, stdout = outp, resume_data = rd, files = fs0, launched = la\<rparr>"
    by (cases w) auto
  have all: "files (snd (main_compile os_exec dec w))
       = files (snd (main_compile_try os_exec dec
           (py_print (''Compiling to PDF... this may take a moment. '' @ hourglass) w)))
         - aux_files"
    by (rule main_compile_files)
  then have none: "files (snd (main_compile os_exec dec w)) \<inter> aux_files = {}"
    by blast
  have ok: "fst (main_compile os_exec dec w) = Inr ()
        \<and> files (snd (main_compile os_exec dec w)) = fs2 - aux_files"
    if "os_exec pdflatex_args (files w) = Ran 0 out1 err1 fs1"
      and "os_exec pdflatex_args fs1 = Ran 0 out2 err2 fs2"
    using that
    by (simp add: w main_compile_def main_compile_try_def py_print_lit subprocess_run_def
        clean_extensions_lit aux_files_def output_filename_base_def
        del: clean_extensions.simps)
  have bad: "fst (main_compile os_exec dec w) = Inr ()
        \<and> files (snd (main_compile os_exec dec w)) = fs - aux_files"
    if "os_exec pdflatex_args (files w) = Ran returncode out err fs" and "returncode \<noteq> 0"
    using that
    by (simp add: w main_compile_def main_compile_try_def py_print_lit subprocess_run_def
        clean_extensions_lit aux_files_def output_filename_base_def
        del: clean_extensions.simps)
  have missing: "main_compile os_exec dec w =
          (Inr (),
           w\<lparr>stdout := stdout w
                @ ''Compiling to PDF... this may take a moment. '' @ hourglass @ [NL]
                @ NL # cross_mark @ '' Error: 'pdflatex' command not found.'' @ [NL]
                @ ''Please ensure you have a LaTeX distribution (like MiKTeX, TeX Live, ''
                @ ''or MacTeX) installed and in your system's PATH.'' @ [NL],
              files := files w - aux_files,
              launched := launched w @ [pdflatex_args]\<rparr>)"
    if "os_exec pdflatex_args (files w) = CannotStart FileNotFoundError"
    using that
    by (simp add: w main_compile_def main_compile_try_def py_print_lit subprocess_run_def
        clean_extensions_lit aux_files_def output_filename_base_def
        del: clean_extensions.simps)
  have pdf: "(''resume.pdf'' \<in> files (snd (main_compile os_exec dec w)))
            = (''resume.pdf'' \<in> files w)"
    if "os_exec pdflatex_args (files w) = CannotStart FileNotFoundError"
    using missing [OF that] by (simp add: aux_files_def)
  show ?thesis
    using all none ok bad missing pdf by blast
qed

theorem cleanup_runs_on_every_exit_path_witness:
  "(\<lambda>args fs. CannotStart FileNotFoundError) pdflatex_args
      {''resume.tex'', ''resume.aux'', ''resume.out'', ''notes.txt''}
     = CannotStart FileNotFoundError
   \<and> main_compile (\<lambda>args fs. CannotStart FileNotFoundError) (\<lambda>b. b)
        \<lparr>stdin = [], stdout = [], resume_data = [],
         files = {''resume.tex'', ''resume.aux'', ''resume.out'', ''notes.txt''},
         launched = []\<rparr>
      = (Inr (),
         \<lparr>stdin = [],
          stdout = ''Compiling to PDF... this may take a moment. '' @ hourglass @ [NL]
                @ NL # cross_mark @ '' Error: 'pdflatex' command not found.'' @ [NL]
                @ ''Please ensure you have a LaTeX distribution (like MiKTeX, TeX Live, ''
                @ ''or MacTeX) installed and in your system's PATH.'' @ [NL],
          resume_data = [],
          files = {''resume.tex'', ''notes.txt''},
          launched = [pdflatex_args]\<rparr>)
   \<and> (\<lambda>args fs. Ran 0 ''ok'' [] {''resume.tex'', ''resume.pdf'', ''resume.aux'', ''resume.log''})
        pdflatex_args {''resume.tex''}
       = Ran 0 ''ok'' [] {''resume.tex'', ''resume.pdf'', ''resume.aux'', ''resume.log''}
   \<and> files (snd (main_compile
         (\<lambda>args fs. Ran 0 ''ok'' [] {''resume.tex'', ''resume.pdf'', ''resume.aux'', ''resume.log''})
         (\<lambda>b. b)
         \<lparr>stdin = [], stdout = [], resume_data = [], files = {''resume.tex''}, launched = []\<rparr>))
       = {''resume.tex'', ''resume.pdf''}
   \<and> (\<lambda>args fs. Ran 1 ''bad'' [] {''resume.log'', ''resume.tex''}) pdflatex_args {''resume.tex''}
       = Ran 1 ''bad'' [] {''resume.log'', ''resume.tex''}
   \<and> files (snd (main_compile (\<lambda>args fs. Ran 1 ''bad'' [] {''resume.log'', ''resume.tex''})
         (\<lambda>b. b)
         \<lparr>stdin = [], stdout = [], resume_data = [], files = {''resume.tex''}, launched = []\<rparr>))
       = {''resume.tex''}"
proof -
  let ?w = "\<lparr>stdin = [], stdout = [], resume_data = [], files = {''resume.tex''}, launched = []\<rparr>"
  let ?all = "{''resume.tex'', ''resume.pdf'', ''resume.aux'', ''resume.log''}"
  have s1: "{''resume.tex'', ''resume.aux'', ''resume.out'', ''notes.txt''} - aux_files
      = {''resume.tex'', ''notes.txt''}"
    by (auto simp add: aux_files_def)
  have s2: "?all - aux_files = {''resume.tex'', ''resume.pdf''}"
    by (auto simp add: aux_files_def)
  have s3: "{''resume.log'', ''resume.tex''} - aux_files = {''resume.tex''}"
    by (auto simp add: aux_files_def)
  have missing: "main_compile (\<lambda>args fs. CannotStart FileNotFoundError) (\<lambda>b. b)
        \<lparr>stdin = [], stdout = [], resume_data = [],
         files = {''resume.tex'', ''resume.aux'', ''resume.out'', ''notes.txt''},
         launched = []\<rparr>
      = (Inr (),
         \<lparr>stdin = [],
          stdout = ''Compiling to PDF... this may take a moment. '' @ hourglass @ [NL]
                @ NL # cross_mark @ '' Error: 'pdflatex' command not found.'' @ [NL]
                @ ''Please ensure you have a LaTeX distribution (like MiKTeX, TeX Live, ''
                @ ''or MacTeX) installed and in your system's PATH.'' @ [NL],
          resume_data = [],
          files = {''resume.tex'', ''notes.txt''},
          launched = [pdflatex_args]\<rparr>)"
    using cleanup_runs_on_every_exit_path [where os_exec = "\<lambda>args fs. CannotStart FileNotFoundError" and dec = "\<lambda>b. b"
        and w = "\<lparr>stdin = [], stdout = [], resume_data = [],
         files = {''resume.tex'', ''resume.aux'', ''resume.out'', ''notes.txt''},
         launched = []\<rparr>"
        and ?out1.0 = "[]" and ?err1.0 = "[]" and ?fs1.0 = "{}"
        and ?out2.0 = "[]" and ?err2.0 = "[]" and ?fs2.0 = "{}"
        and returncode = 1 and out = "[]" and err = "[]" and fs = "{}"]
    by (simp add: s1)
  have ok: "files (snd (main_compile (\<lambda>args fs. Ran 0 ''ok'' [] ?all) (\<lambda>b. b) ?w))
       = {''resume.tex'', ''resume.pdf''}"
  proof -
    have h: "(\<lambda>args fs. Ran 0 ''ok'' [] ?all) pdflatex_args (files ?w) = Ran 0 ''ok'' [] ?all
        \<and> (\<lambda>args fs. Ran 0 ''ok'' [] ?all) pdflatex_args ?all = Ran 0 ''ok'' [] ?all"
      by simp
    have "files (snd (main_compile (\<lambda>args fs. Ran 0 ''ok'' [] ?all) (\<lambda>b. b) ?w))
        = ?all - aux_files"
      using h cleanup_runs_on_every_exit_path [where os_exec = "\<lambda>args fs. Ran 0 ''ok'' [] ?all"
        and dec = "\<lambda>b. b" and w = ?w and ?out1.0 = "''ok''" and ?err1.0 = "[]"
        and ?fs1.0 = ?all and ?out2.0 = "''ok''" and ?err2.0 = "[]" and ?fs2.0 = ?all
        and returncode = 1 and out = "[]" and err = "[]" and fs = "{}"]
      by blast
    then show ?thesis
      by (simp only: s2)
  qed
  have bad: "files (snd (main_compile (\<lambda>args fs. Ran 1 ''bad'' [] {''resume.log'', ''resume.tex''})
         (\<lambda>b. b) ?w))
       = {''resume.tex''}"
  proof -
    have h: "(\<lambda>args fs. Ran 1 ''bad'' [] {''resume.log'', ''resume.tex''}) pdflatex_args (files ?w)
          = Ran 1 ''bad'' [] {''resume.log'', ''resume.tex''} \<and> (1 :: int) \<noteq> 0"
      by simp
    have "files (snd (main_compile (\<lambda>args fs. Ran 1 ''bad'' [] {''resume.log'', ''resume.tex''})
         (\<lambda>b. b) ?w)) = {''resume.log'', ''resume.tex''} - aux_files"
      using h cleanup_runs_on_every_exit_path [where os_exec = "\<lambda>args fs. Ran 1 ''bad'' [] {''resume.log'', ''resume.tex''}"
        and dec = "\<lambda>b. b" and w = ?w
        and ?out1.0 = "[]" and ?err1.0 = "[]" and ?fs1.0 = "{}"
        and ?out2.0 = "[]" and ?err2.0 = "[]" and ?fs2.0 = "{}"
        and returncode = 1 and out = "''bad''" and err = "[]"
        and fs = "{''resume.log'', ''resume.tex''}"]
      by blast
    then show ?thesis
      by (simp only: s3)
  qed
  show ?thesis
    using missing ok bad by simp
qed

end
